theory Spec2Isabelle
  imports Main "HOL-Library.Sublist" "HOL-Library.AList"
begin

section \<open>Requests, response sinks and runs of a handler\<close>

text \<open>
  The part of \<^verbatim>\<open>*http.Request\<close> that \<^verbatim>\<open>server.go\<close> reads: the method, the
  request URI, the remote address, the header map (\<^verbatim>\<open>map[string][]string\<close>) and the
  path the multiplexer dispatches on.
\<close>

record Request =
  Method :: string
  RequestURI :: string
  RemoteAddr :: string
  Header :: "string \<rightharpoonup> string list"
  URLPath :: string

text \<open>
  A handler is modelled by what it does during one call of \<^verbatim>\<open>ServeHTTP\<close>: the
  sequence of operations on its \<^verbatim>\<open>http.ResponseWriter\<close> (\<open>SetHeader\<close>, \<open>DelHeader\<close>,
  \<open>WriteHeader\<close>, \<open>Write\<close>), the records it hands to package \<^verbatim>\<open>log\<close>, what it prints
  on standard error and the time it lets pass (nanoseconds), followed by the way the
  call ends: it returns, or it panics with a value. Handlers are assumed to end after
  finite time and not to read back from the sink they write to.
\<close>

datatype event =
    SetHeader string string
  | DelHeader string
  | WriteHeader nat
  | Write string
  | Log string
  | Stderr string
  | Elapse nat

text \<open>
  The non-nil value \<^verbatim>\<open>recover()\<close> hands back: a \<^verbatim>\<open>string\<close>, a value implementing
  \<^verbatim>\<open>error\<close> (with the text its \<^verbatim>\<open>Error()\<close> method returns), or a value of any other
  dynamic type (tagged by a number).
\<close>

datatype panic_value = PString string | PError string | POther nat

datatype ending = Returns | Panics panic_value

type_synonym run = "event list \<times> ending"

type_synonym ControllerFunc = "Request \<Rightarrow> run"

subsection \<open>What the client receives\<close>

text \<open>
  The response sink of \<^verbatim>\<open>net/http\<close>: header changes count until the status line is
  written; the first \<^verbatim>\<open>WriteHeader\<close> fixes the status, later ones are superfluous; a
  \<^verbatim>\<open>Write\<close> before any \<^verbatim>\<open>WriteHeader\<close> implies status 200; a handler that ends without
  either gets status 200.
\<close>

record response =
  status :: "nat option"
  headers :: "string \<rightharpoonup> string list"
  body :: string

definition empty_response :: response where
  "empty_response = \<lparr>status = None, headers = Map.empty, body = []\<rparr>"

fun apply_event :: "response \<Rightarrow> event \<Rightarrow> response" where
  "apply_event w (SetHeader k v) =
     (if status w = None then w\<lparr>headers := (headers w)(k \<mapsto> [v])\<rparr> else w)"
| "apply_event w (DelHeader k) =
     (if status w = None then w\<lparr>headers := (headers w)(k := None)\<rparr> else w)"
| "apply_event w (WriteHeader c) =
     (if status w = None then w\<lparr>status := Some c\<rparr> else w)"
| "apply_event w (Write b) =
     (if status w = None then w\<lparr>status := Some 200, body := body w @ b\<rparr>
      else w\<lparr>body := body w @ b\<rparr>)"
| "apply_event w (Log l) = w"
| "apply_event w (Stderr l) = w"
| "apply_event w (Elapse n) = w"

definition finish :: "response \<Rightarrow> response" where
  "finish w = (if status w = None then w\<lparr>status := Some 200\<rparr> else w)"

definition client_response :: "event list \<Rightarrow> response" where
  "client_response evs = finish (foldl apply_event empty_response evs)"

fun log_records :: "event list \<Rightarrow> string list" where
  "log_records [] = []"
| "log_records (Log l # evs) = l # log_records evs"
| "log_records (e # evs) = log_records evs"

fun is_sink_write :: "event \<Rightarrow> bool" where
  "is_sink_write (WriteHeader c) = True"
| "is_sink_write (Write b) = True"
| "is_sink_write e = False"

fun written :: "event list \<Rightarrow> string" where
  "written [] = []"
| "written (Write b # evs) = b @ written evs"
| "written (e # evs) = written evs"

section \<open>The error reporter\<close>

record ErrorHandler =
  PanicHandler :: bool

text \<open>\<^verbatim>\<open>fmt\<close>'s \<^verbatim>\<open>%s\<close> of an \<^verbatim>\<open>error\<close>: its text, or the nil marker.\<close>

fun fmt_err :: "string option \<Rightarrow> string" where
  "fmt_err None = ''%!s(<nil>)''"
| "fmt_err (Some e) = e"

definition user_agent :: "Request \<Rightarrow> string" where
  "user_agent r =
     (case Header r ''User-Agent'' of
        None \<Rightarrow> ''Unknown''
      | Some [] \<Rightarrow> ''Unknown''
      | Some (a # _) \<Rightarrow> a)"

definition server_error_msg :: "Request \<Rightarrow> string" where
  "server_error_msg r =
     ''Server Error - Method: '' @ Method r @ '', User Agent: '' @ user_agent r @
     '', Remote Address: '' @ RemoteAddr r @ '', Endpoint: '' @ RequestURI r"

text \<open>
  \<^verbatim>\<open>HandleError\<close>, as the list of records it passes to \<^verbatim>\<open>log.Printf\<close>; the error is
  \<open>None\<close> for \<^verbatim>\<open>nil\<close> and otherwise carries the text of \<^verbatim>\<open>err.Error()\<close>.
\<close>

definition HandleError :: "ErrorHandler \<Rightarrow> Request \<Rightarrow> string option \<Rightarrow> event list" where
  "HandleError eh r err =
     (if PanicHandler eh then
        [Log (''Panic: '' @ (''URI: '' @ RequestURI r @ '', '' @ fmt_err err))]
      else
        (case err of
           None \<Rightarrow> []
         | Some e \<Rightarrow> [Log (''Panic: '' @ (server_error_msg r @ '', ERROR: '' @ e))]))"

section \<open>The recovery wrapper\<close>

text \<open>
  \<^verbatim>\<open>http.Error\<close> of the standard library: it drops \<^verbatim>\<open>Content-Length\<close>, sets the content
  type and the no-sniff header, writes the status and prints the message with a
  newline.
\<close>

definition http_Error :: "string \<Rightarrow> nat \<Rightarrow> event list" where
  "http_Error msg code =
     [DelHeader ''Content-Length'',
      SetHeader ''Content-Type'' ''text/plain; charset=utf-8'',
      SetHeader ''X-Content-Type-Options'' ''nosniff'',
      WriteHeader code,
      Write (msg @ [CHR 0x0A])]"

definition StatusInternalServerError :: nat where
  "StatusInternalServerError = 500"

text \<open>\<^verbatim>\<open>http.StatusText\<close>, for the codes that occur here.\<close>

definition StatusText :: "nat \<Rightarrow> string" where
  "StatusText c =
     (if c = 500 then ''Internal Server Error''
      else if c = 503 then ''Service Unavailable''
      else if c = 404 then ''Not Found''
      else if c = 200 then ''OK''
      else [])"

text \<open>The type switch on the recovered value, as the text of the resulting error.\<close>

fun recovered_err :: "panic_value \<Rightarrow> string" where
  "recovered_err (PString x) = x"
| "recovered_err (PError x) = x"
| "recovered_err (POther n) = ''unknown panic''"

text \<open>
  The deferred function of \<^verbatim>\<open>RecoverHandler\<close> for a recovered value; \<open>stack\<close> is what
  \<^verbatim>\<open>debug.Stack()\<close> returns there (never nil, so the inner guard always holds), and
  \<^verbatim>\<open>debug.PrintStack()\<close> prints on standard error. The error built by the switch is
  never nil, so both reports are made. In \<^verbatim>\<open>RecoverHandler\<close> a nil \<open>next\<close> is \<open>None\<close>.
\<close>

definition on_panic :: "string \<Rightarrow> Request \<Rightarrow> panic_value \<Rightarrow> event list" where
  "on_panic stack r rr =
     (let err = recovered_err rr;
          eh = \<lparr>PanicHandler = False\<rparr>;
          perr = ''PANIC: '' @ err;
          etrace = ''STACKTRACE: '' @ stack
      in HandleError eh r (Some perr) @ [Stderr stack] @ HandleError eh r (Some etrace) @
         http_Error (StatusText StatusInternalServerError) StatusInternalServerError)"

definition RecoverHandler :: "string \<Rightarrow> ControllerFunc option \<Rightarrow> ControllerFunc" where
  "RecoverHandler stack next r =
     (case next of
        None \<Rightarrow> ([], Returns)
      | Some h \<Rightarrow>
          (case h r of
             (evs, Returns) \<Rightarrow> (evs, Returns)
           | (evs, Panics rr) \<Rightarrow> (evs @ on_panic stack r rr, Returns)))"

section \<open>The compression wrapper\<close>

text \<open>\<^verbatim>\<open>strings.Contains\<close>.\<close>

fun has_prefix :: "string \<Rightarrow> string \<Rightarrow> bool" where
  "has_prefix s [] = True"
| "has_prefix [] (c # sub) = False"
| "has_prefix (d # s) (c # sub) = (d = c \<and> has_prefix s sub)"

fun strings_Contains :: "string \<Rightarrow> string \<Rightarrow> bool" where
  "strings_Contains [] sub = has_prefix [] sub"
| "strings_Contains (d # s) sub = (has_prefix (d # s) sub \<or> strings_Contains s sub)"

text \<open>\<^verbatim>\<open>Header.Get\<close>: the first value stored under the key, or the empty string.\<close>

definition Header_Get :: "(string \<rightharpoonup> string list) \<Rightarrow> string \<Rightarrow> string" where
  "Header_Get h k = (case h k of None \<Rightarrow> [] | Some [] \<Rightarrow> [] | Some (v # _) \<Rightarrow> v)"

text \<open>
  The ten bytes \<^verbatim>\<open>gzip.Writer\<close> puts in front of the stream when no name, comment,
  extra field or modification time is set (as here), at the default level.
\<close>

definition gzip_header :: string where
  "gzip_header = [CHR 0x1F, CHR 0x8B, CHR 0x08, CHR 0x00, CHR 0x00, CHR 0x00, CHR 0x00,
                  CHR 0x00, CHR 0x00, CHR 0xFF]"

text \<open>
  What the handler's operations become on the \<^verbatim>\<open>gzipResponseWriter\<close>: \<^verbatim>\<open>Header\<close> and
  \<^verbatim>\<open>WriteHeader\<close> are those of the embedded \<^verbatim>\<open>ResponseWriter\<close>; a \<^verbatim>\<open>Write\<close> goes to the
  \<^verbatim>\<open>gzip.Writer\<close>, whose first \<^verbatim>\<open>Write\<close> sends the stream header to the underlying sink.
  The flag says whether the stream header is out. The compressed data is held back
  until \<^verbatim>\<open>Close\<close> (the compressor may send parts of it earlier; the bytes in total
  are the same).
\<close>

fun through_gzip :: "bool \<Rightarrow> event list \<Rightarrow> event list" where
  "through_gzip wrote [] = []"
| "through_gzip wrote (Write b # evs) =
     (if wrote then through_gzip True evs else Write gzip_header # through_gzip True evs)"
| "through_gzip wrote (e # evs) = e # through_gzip wrote evs"

fun has_write :: "event list \<Rightarrow> bool" where
  "has_write [] = False"
| "has_write (Write b # evs) = True"
| "has_write (e # evs) = has_write evs"

text \<open>
  The deferred \<^verbatim>\<open>gz.Close()\<close>: the stream header if it is not out yet, then the
  compressed data and the trailer, \<open>deflate\<close> of everything the handler wrote.
\<close>

definition gz_Close :: "(string \<Rightarrow> string) \<Rightarrow> event list \<Rightarrow> event list" where
  "gz_Close deflate evs =
     (if has_write evs then [Write (deflate (written evs))]
      else [Write gzip_header, Write (deflate (written evs))])"

definition GZipHandler :: "(string \<Rightarrow> string) \<Rightarrow> ControllerFunc \<Rightarrow> ControllerFunc" where
  "GZipHandler deflate h r =
     (if \<not> strings_Contains (Header_Get (Header r) ''Accept-Encoding'') ''gzip'' then h r
      else
        (case h r of
           (evs, e) \<Rightarrow>
             (SetHeader ''Content-Encoding'' ''gzip'' # through_gzip False evs @
              gz_Close deflate evs, e)))"

section \<open>The timeout and metrics wrappers\<close>

fun elapsed :: "event list \<Rightarrow> nat" where
  "elapsed [] = 0"
| "elapsed (Elapse n # evs) = n + elapsed evs"
| "elapsed (e # evs) = elapsed evs"

fun is_sink_op :: "event \<Rightarrow> bool" where
  "is_sink_op (SetHeader k v) = True"
| "is_sink_op (DelHeader k) = True"
| "is_sink_op (WriteHeader c) = True"
| "is_sink_op (Write b) = True"
| "is_sink_op e = False"

fun is_header_op :: "event \<Rightarrow> bool" where
  "is_header_op (SetHeader k v) = True"
| "is_header_op (DelHeader k) = True"
| "is_header_op e = False"

text \<open>The events of a run that happen before \<open>t\<close> nanoseconds have passed.\<close>

fun until :: "nat \<Rightarrow> event list \<Rightarrow> event list" where
  "until t [] = []"
| "until t (Elapse n # evs) = (if n \<le> t then Elapse n # until (t - n) evs else [Elapse t])"
| "until t (e # evs) = e # until t evs"

fun first_status :: "event list \<Rightarrow> nat" where
  "first_status [] = 200"
| "first_status (WriteHeader c # evs) = c"
| "first_status (Write b # evs) = 200"
| "first_status (e # evs) = first_status evs"

definition StatusServiceUnavailable :: nat where
  "StatusServiceUnavailable = 503"

text \<open>
  \<^verbatim>\<open>http.TimeoutHandler\<close> of the standard library, from its documentation: the handler
  runs against a buffer; when it returns within the limit, its headers, status and
  body are copied to the real sink; when it panics, the panic is passed on and the
  buffer dropped; when the limit passes first, the reply is 503 with the given body
  and nothing of the buffer. A run that ends exactly at the limit counts as in time.
\<close>

definition http_TimeoutHandler :: "ControllerFunc \<Rightarrow> nat \<Rightarrow> string \<Rightarrow> ControllerFunc" where
  "http_TimeoutHandler h dt msg r =
     (case h r of
        (evs, e) \<Rightarrow>
          if dt < elapsed evs then
            (filter (\<lambda>x. \<not> is_sink_op x) (until dt evs) @
             [WriteHeader StatusServiceUnavailable, Write msg], Returns)
          else
            (case e of
               Panics p \<Rightarrow> (filter (\<lambda>x. \<not> is_sink_op x) evs, Panics p)
             | Returns \<Rightarrow>
                 (filter (\<lambda>x. \<not> is_sink_op x) evs @ filter is_header_op evs @
                  [WriteHeader (first_status evs), Write (written evs)], Returns)))"

definition Second :: nat where
  "Second = 1000000000"

definition TimeoutHandler :: "ControllerFunc \<Rightarrow> ControllerFunc" where
  "TimeoutHandler h = http_TimeoutHandler h (4 * Second) ''timed out''"

text \<open>\<^verbatim>\<open>%d\<close> of a non-negative integer.\<close>

function dec :: "nat \<Rightarrow> string" where
  "dec n = (if n < 10 then [''0123456789'' ! n]
            else dec (n div 10) @ [''0123456789'' ! (n mod 10)])"
  by pat_completeness auto
termination
  by (relation "measure id") auto

declare dec.simps [simp del]

text \<open>
  \<^verbatim>\<open>RequestMetricsHandler\<close>: the log call follows the call of the wrapped handler
  without a \<^verbatim>\<open>defer\<close>, so a panic of the wrapped handler leaves the function before it.
\<close>

definition RequestMetricsHandler :: "ControllerFunc \<Rightarrow> ControllerFunc" where
  "RequestMetricsHandler h r =
     (let uri = RequestURI r; method = Method r in
      case h r of
        (evs, Returns) \<Rightarrow>
          (evs @ [Log (''Request: '' @ uri @ '' '' @ method @ '' '' @ dec (elapsed evs))],
           Returns)
      | (evs, Panics p) \<Rightarrow> (evs, Panics p))"

section \<open>The router\<close>

text \<open>
  The route table is a Go map; it is kept here as an association list with distinct
  keys, so that \<^verbatim>\<open>routes\<close> can visit its entries.
\<close>

record Router =
  routerMap :: "(string \<times> ControllerFunc) list"

record Config =
  Router :: Router
  Port :: string
  StaticFilesDirPath :: string
  ViewsDirPath :: string

definition NewRouter :: Router where
  "NewRouter = \<lparr>routerMap = []\<rparr>"

definition Router_routes :: "Router \<Rightarrow> (string \<times> ControllerFunc) list" where
  "Router_routes r = routerMap r"

definition GET :: "Router \<Rightarrow> string \<Rightarrow> ControllerFunc \<Rightarrow> Router" where
  "GET r path controller = r\<lparr>routerMap := AList.update path controller (routerMap r)\<rparr>"

text \<open>A sequence of registrations, in the order of the calls.\<close>

fun register_all :: "Router \<Rightarrow> (string \<times> ControllerFunc) list \<Rightarrow> Router" where
  "register_all r [] = r"
| "register_all r ((path, controller) # regs) = register_all (GET r path controller) regs"

section \<open>The multiplexer of the standard library\<close>

text \<open>
  \<^verbatim>\<open>http.ServeMux\<close> is not part of the repository and differs between Go releases, so
  what it decides is a parameter: \<open>refuses\<close> says whether \<^verbatim>\<open>Handle\<close> rejects a pattern,
  given the patterns registered so far (a pattern it cannot parse, or one in conflict
  with another); \<open>select\<close> says what the multiplexer does with a request, given the
  registered patterns: it picks one of them, or it answers by a handler of its own (a
  redirect, not found, bad request, method not allowed).
\<close>

datatype selection = Pattern string | Own ControllerFunc

record mux_lib =
  refuses :: "string list \<Rightarrow> string \<Rightarrow> bool"
  select :: "string list \<Rightarrow> Request \<Rightarrow> selection"

datatype startup_panic = InvalidPattern | MultipleRegistrations string | Refused string

type_synonym mux = "(string \<times> ControllerFunc) list"

text \<open>
  \<^verbatim>\<open>ServeMux.Handle\<close>: in every release it panics on the empty pattern and on a pattern
  that is registered already; otherwise the registration is added.
\<close>

definition Handle :: "mux_lib \<Rightarrow> mux \<Rightarrow> string \<Rightarrow> ControllerFunc \<Rightarrow> startup_panic + mux" where
  "Handle lib m pattern h =
     (if pattern = [] then Inl InvalidPattern
      else if pattern \<in> set (map fst m) then Inl (MultipleRegistrations pattern)
      else if refuses lib (map fst m) pattern then Inl (Refused pattern)
      else Inr (m @ [(pattern, h)]))"

definition NotFound :: ControllerFunc where
  "NotFound r = (http_Error ''404 page not found'' 404, Returns)"

text \<open>
  \<^verbatim>\<open>ServeMux.ServeHTTP\<close>: the handler registered under the pattern the multiplexer
  picks, or the multiplexer's own answer.
\<close>

definition ServeMux_ServeHTTP :: "mux_lib \<Rightarrow> mux \<Rightarrow> ControllerFunc" where
  "ServeMux_ServeHTTP lib m r =
     (case select lib (map fst m) r of
        Pattern p \<Rightarrow> (case map_of m p of Some h \<Rightarrow> h r | None \<Rightarrow> NotFound r)
      | Own h \<Rightarrow> h r)"

section \<open>Building the multiplexer\<close>

text \<open>
  The loop of \<^verbatim>\<open>routes\<close> over the route table. Go leaves the order of the visit open;
  here it is the order in which the paths were first registered.
\<close>

fun register_routes :: "mux_lib \<Rightarrow> mux \<Rightarrow> (string \<times> ControllerFunc) list \<Rightarrow> startup_panic + mux" where
  "register_routes lib m [] = Inr m"
| "register_routes lib m ((path, h) # rest) =
     (case Handle lib m path h of
        Inl p \<Rightarrow> Inl p
      | Inr m' \<Rightarrow> register_routes lib m' rest)"

text \<open>\<^verbatim>\<open>routes\<close>; \<open>fs\<close> stands for \<^verbatim>\<open>http.FileServer(http.Dir(dir))\<close>.\<close>

definition routes ::
  "mux_lib \<Rightarrow> (string \<Rightarrow> ControllerFunc) \<Rightarrow> Config \<Rightarrow> startup_panic + mux" where
  "routes lib fs cfg =
     (case Handle lib [] ''/css/'' (fs (StaticFilesDirPath cfg)) of
        Inl p \<Rightarrow> Inl p
      | Inr m \<Rightarrow> register_routes lib m (Router_routes (Router cfg)))"

section \<open>The composed handler\<close>

text \<open>
  \<^verbatim>\<open>alice.New(cs...).Then(h)\<close>: the loop of \<^verbatim>\<open>Then\<close> applies the constructors from the
  last to the first.
\<close>

definition alice_Then ::
  "(ControllerFunc \<Rightarrow> ControllerFunc) list \<Rightarrow> ControllerFunc \<Rightarrow> ControllerFunc" where
  "alice_Then constructors h = foldl (\<lambda>h c. c h) h (rev constructors)"

text \<open>
  What the surroundings supply: the stack dump, the compressor, the file server and the
  multiplexer.
\<close>

record env =
  debug_Stack :: string
  deflate :: "string \<Rightarrow> string"
  FileServer :: "string \<Rightarrow> ControllerFunc"
  ServeMux :: mux_lib

definition handler :: "env \<Rightarrow> Config \<Rightarrow> startup_panic + ControllerFunc" where
  "handler E cfg =
     (let handlers = [TimeoutHandler, (\<lambda>next. RecoverHandler (debug_Stack E) (Some next)),
                      RequestMetricsHandler,
                      GZipHandler (deflate E)]
      in case routes (ServeMux E) (FileServer E) cfg of
           Inl p \<Rightarrow> Inl p
         | Inr m \<Rightarrow> Inr (alice_Then handlers (ServeMux_ServeHTTP (ServeMux E) m)))"

section \<open>Declaring gzip support, in the words of the specification\<close>

text \<open>
  Written from the specification, not from the code, to compare the two: a request
  declares gzip support when its \<^verbatim>\<open>Accept-Encoding\<close> header, over all its values, lists
  the coding \<open>gzip\<close> (names of codings do not distinguish case) with a weight other
  than zero.
\<close>

fun split_on :: "char \<Rightarrow> string \<Rightarrow> string list" where
  "split_on c [] = [[]]"
| "split_on c (x # xs) =
     (if x = c then [] # split_on c xs
      else (case split_on c xs of [] \<Rightarrow> [[x]] | w # ws \<Rightarrow> (x # w) # ws))"

definition is_blank :: "char \<Rightarrow> bool" where
  "is_blank c = (c = CHR '' '' \<or> c = CHR 0x09)"

definition trim :: "string \<Rightarrow> string" where
  "trim s = rev (dropWhile is_blank (rev (dropWhile is_blank s)))"

definition lower_char :: "char \<Rightarrow> char" where
  "lower_char c =
     (case map_of (zip ''ABCDEFGHIJKLMNOPQRSTUVWXYZ'' ''abcdefghijklmnopqrstuvwxyz'') c of
        None \<Rightarrow> c
      | Some l \<Rightarrow> l)"

definition zero_weight :: "string \<Rightarrow> bool" where
  "zero_weight param =
     (case map lower_char (trim param) of
        q # e # d # ds \<Rightarrow>
          q = CHR ''q'' \<and> e = CHR ''='' \<and> d = CHR ''0'' \<and>
          list_all (\<lambda>c. c = CHR ''0'' \<or> c = CHR ''.'') ds
      | _ \<Rightarrow> False)"

definition lists_gzip :: "string \<Rightarrow> bool" where
  "lists_gzip item =
     (case split_on CHR '';'' item of
        [] \<Rightarrow> False
      | name # params \<Rightarrow>
          map lower_char (trim name) = ''gzip'' \<and> \<not> list_ex zero_weight params)"

definition declares_gzip :: "Request \<Rightarrow> bool" where
  "declares_gzip r =
     (case Header r ''Accept-Encoding'' of
        None \<Rightarrow> False
      | Some vs \<Rightarrow> list_ex lists_gzip (concat (map (split_on CHR '','') vs)))"

section \<open>A multiplexer for the examples\<close>

text \<open>
  The multiplexer of Go before release 1.22, for patterns that begin with a slash (it
  refuses the others, which the library would match against host and path): a request
  with the URI \<open>*\<close> is a bad request; the path of every request other than
  \<^verbatim>\<open>CONNECT\<close> is cleaned, and a request whose path is not clean is redirected to the
  clean one; a path that is not registered while the path with a slash added is, is
  redirected there; otherwise the pattern equal to the path is picked, else the
  longest pattern ending in a slash that is a prefix of the path, else the answer is
  not found. The redirect is kept as its status and location only.
\<close>

fun walk :: "string list \<Rightarrow> string list \<Rightarrow> string list" where
  "walk acc [] = rev acc"
| "walk acc (e # es) = (if e = ''..'' then walk (tl acc) es else walk (e # acc) es)"

text \<open>\<^verbatim>\<open>path.Clean\<close> on a path that begins with a slash.\<close>

definition path_Clean :: "string \<Rightarrow> string" where
  "path_Clean p =
     (let elems = walk [] (filter (\<lambda>e. e \<noteq> [] \<and> e \<noteq> ''.'') (split_on CHR ''/'' p))
      in if elems = [] then ''/'' else concat (map (\<lambda>e. CHR ''/'' # e) elems))"

definition cleanPath :: "string \<Rightarrow> string" where
  "cleanPath p =
     (if p = [] then ''/''
      else
        (let p' = (if hd p \<noteq> CHR ''/'' then CHR ''/'' # p else p);
             np = path_Clean p'
         in if last p' = CHR ''/'' \<and> np \<noteq> ''/'' then np @ ''/'' else np))"

definition Redirect :: "string \<Rightarrow> ControllerFunc" where
  "Redirect url r = ([SetHeader ''Location'' url, WriteHeader 301], Returns)"

definition BadRequest :: ControllerFunc where
  "BadRequest r = ([SetHeader ''Connection'' ''close'', WriteHeader 400], Returns)"

definition subtree_patterns :: "string \<Rightarrow> string list" where
  "subtree_patterns path =
     filter (\<lambda>p. p \<noteq> [] \<and> last p = CHR ''/'') (rev (prefixes path))"

definition match :: "string list \<Rightarrow> string \<Rightarrow> selection" where
  "match pats path =
     (if path \<in> set pats then Pattern path
      else
        (case filter (\<lambda>p. p \<in> set pats) (subtree_patterns path) of
           [] \<Rightarrow> Own NotFound
         | p # _ \<Rightarrow> Pattern p))"

definition shouldRedirect :: "string list \<Rightarrow> string \<Rightarrow> bool" where
  "shouldRedirect pats path =
     (if path \<in> set pats then False
      else if path = [] then False
      else if path @ ''/'' \<in> set pats then last path \<noteq> CHR ''/''
      else False)"

definition path_mux :: mux_lib where
  "path_mux =
     \<lparr>refuses = (\<lambda>pats pattern. hd pattern \<noteq> CHR ''/''),
      select = (\<lambda>pats r.
        if RequestURI r = ''*'' then Own BadRequest
        else if Method r = ''CONNECT'' then
          (if shouldRedirect pats (URLPath r) then Own (Redirect (URLPath r @ ''/''))
           else match pats (URLPath r))
        else
          (let path = cleanPath (URLPath r)
           in if shouldRedirect pats path then Own (Redirect (path @ ''/''))
              else if path \<noteq> URLPath r then Own (Redirect path)
              else match pats (URLPath r)))\<rparr>"

section \<open>Sample requests, handlers and surroundings\<close>

definition r_gzip :: Request where
  "r_gzip = \<lparr>Method = ''POST'', RequestURI = ''/pay?x=1'', RemoteAddr = ''10.0.0.1:5000'',
             Header = [''Accept-Encoding'' \<mapsto> [''gzip, deflate'']], URLPath = ''/pay''\<rparr>"

definition r_plain :: Request where
  "r_plain = \<lparr>Method = ''GET'', RequestURI = ''/pay'', RemoteAddr = ''10.0.0.2:6000'',
              Header = [''User-Agent'' \<mapsto> [''curl/8'', ''other'']], URLPath = ''/pay''\<rparr>"

definition r_second_value :: Request where
  "r_second_value =
     \<lparr>Method = ''GET'', RequestURI = ''/pay'', RemoteAddr = ''10.0.0.3:7000'',
      Header = [''Accept-Encoding'' \<mapsto> [''deflate'', ''gzip'']], URLPath = ''/pay''\<rparr>"

definition r_refuses_gzip :: Request where
  "r_refuses_gzip =
     \<lparr>Method = ''GET'', RequestURI = ''/pay'', RemoteAddr = ''10.0.0.4:8000'',
      Header = [''Accept-Encoding'' \<mapsto> [''gzip;q=0'']], URLPath = ''/pay''\<rparr>"

definition r_unclean :: Request where
  "r_unclean = \<lparr>Method = ''GET'', RequestURI = ''/a//b'', RemoteAddr = ''10.0.0.5:9000'',
                Header = Map.empty, URLPath = ''/a//b''\<rparr>"

definition h_ok :: ControllerFunc where
  "h_ok r = ([SetHeader ''Content-Type'' ''text/html'', Elapse 5, Write ''hello''], Returns)"

definition h_boom :: ControllerFunc where
  "h_boom r = ([Elapse 7], Panics (PString ''boom''))"

definition h_partial :: ControllerFunc where
  "h_partial r = ([Write ''partial''], Panics (PError ''boom''))"

definition h_slow :: ControllerFunc where
  "h_slow r = ([Elapse (5 * Second), Write ''late''], Returns)"

text \<open>A stand-in codec: the data stored as it is behind the stream header.\<close>

definition store :: "string \<Rightarrow> string" where
  "store x = x"

definition unstore :: "string \<Rightarrow> string option" where
  "unstore s = (if take 10 s = gzip_header then Some (drop 10 s) else None)"

definition E0 :: env where
  "E0 = \<lparr>debug_Stack = ''goroutine 1 [running]:'', deflate = store,
         FileServer = (\<lambda>dir. NotFound), ServeMux = path_mux\<rparr>"

definition cfg_pay :: Config where
  "cfg_pay = \<lparr>Router = register_all NewRouter [(''/pay'', h_boom), (''/pay'', h_ok)],
              Port = ''8080'', StaticFilesDirPath = ''static'', ViewsDirPath = ''views''\<rparr>"

definition cfg_css :: Config where
  "cfg_css = \<lparr>Router = register_all NewRouter [(''/css/'', h_ok)],
              Port = ''8080'', StaticFilesDirPath = ''static'', ViewsDirPath = ''views''\<rparr>"

definition cfg_unclean :: Config where
  "cfg_unclean = \<lparr>Router = GET NewRouter ''/a//b'' h_ok,
                  Port = ''8080'', StaticFilesDirPath = ''static'', ViewsDirPath = ''views''\<rparr>"

text \<open>The records of the metrics wrapper among the log records of a run.\<close>

definition request_lines :: "event list \<Rightarrow> string list" where
  "request_lines evs = filter (\<lambda>l. has_prefix l ''Request: '') (log_records evs)"

section \<open>Facts about runs\<close>

lemma log_records_append: "log_records (xs @ ys) = log_records xs @ log_records ys"
  by (induction xs rule: log_records.induct) simp_all

lemma written_append: "written (xs @ ys) = written xs @ written ys"
  by (induction xs rule: written.induct) simp_all

lemma body_foldl: "body (foldl apply_event w evs) = body w @ written evs"
proof (induction evs arbitrary: w)
  case Nil then show ?case by simp
next
  case (Cons e evs) then show ?case by (cases e) simp_all
qed

lemma body_client_response: "body (client_response evs) = written evs"
  by (simp add: client_response_def finish_def body_foldl empty_response_def)

lemma status_foldl_quiet:
  "\<forall>e \<in> set evs. \<not> is_sink_write e \<Longrightarrow> status (foldl apply_event w evs) = status w"
proof (induction evs arbitrary: w)
  case Nil then show ?case by simp
next
  case (Cons e evs) then show ?case by (cases e) simp_all
qed

lemma written_quiet: "\<forall>e \<in> set evs. \<not> is_sink_write e \<Longrightarrow> written evs = []"
  by (induction evs rule: written.induct) simp_all

lemma on_panic_logs:
  "log_records (on_panic stack r rr) =
     [''Panic: '' @ server_error_msg r @ '', ERROR: PANIC: '' @ recovered_err rr,
      ''Panic: '' @ server_error_msg r @ '', ERROR: STACKTRACE: '' @ stack]"
  by (simp add: on_panic_def HandleError_def http_Error_def Let_def)

section \<open>Properties of the wrappers\<close>

text \<open>
  C9: the recovery wrapper turns the recovered value into the reported message: a
  string is the message itself, an error gives its own text, any other value gives
  ``unknown panic''; the message is reported behind the marker \<open>PANIC: \<close>, and the stack
  dump follows as a second record.
\<close>

theorem recover_normalizes_panic_value:
  assumes "h r = (evs, Panics rr)"
  shows "log_records (fst (RecoverHandler stack (Some h) r)) =
           log_records evs @
           [''Panic: '' @ server_error_msg r @ '', ERROR: PANIC: '' @
              (case rr of PString x \<Rightarrow> x | PError x \<Rightarrow> x | POther n \<Rightarrow> ''unknown panic''),
            ''Panic: '' @ server_error_msg r @ '', ERROR: STACKTRACE: '' @ stack]"
  using assms by (cases rr) (simp_all add: RecoverHandler_def log_records_append on_panic_logs)

theorem recover_normalizes_panic_value_witness:
  "h_boom r_plain = ([Elapse 7], Panics (PString ''boom'')) \<and>
   log_records (fst (RecoverHandler ''trace'' (Some h_boom) r_plain)) =
     [''Panic: Server Error - Method: GET, User Agent: curl/8, Remote Address: 10.0.0.2:6000, Endpoint: /pay, ERROR: PANIC: boom'',
      ''Panic: Server Error - Method: GET, User Agent: curl/8, Remote Address: 10.0.0.2:6000, Endpoint: /pay, ERROR: STACKTRACE: trace'']"
proof -
  have h: "h_boom r_plain = ([Elapse 7], Panics (PString ''boom''))" by (simp add: h_boom_def)
  show ?thesis
    using h recover_normalizes_panic_value [of h_boom r_plain "[Elapse 7]" "PString ''boom''" "''trace''"]
    by (simp add: server_error_msg_def user_agent_def r_plain_def)
qed

lemma client_response_after_quiet:
  assumes "\<forall>e \<in> set evs. \<not> is_sink_write e"
  shows "status (client_response (evs @ on_panic stack r rr)) = Some 500"
    and "body (client_response (evs @ on_panic stack r rr)) = ''Internal Server Error'' @ [CHR 0x0A]"
proof -
  have s: "status (foldl apply_event empty_response evs) = None"
    using status_foldl_quiet [OF assms, of empty_response] by (simp add: empty_response_def)
  show "status (client_response (evs @ on_panic stack r rr)) = Some 500"
    by (simp add: client_response_def finish_def on_panic_def HandleError_def http_Error_def
        StatusInternalServerError_def s)
  show "body (client_response (evs @ on_panic stack r rr)) = ''Internal Server Error'' @ [CHR 0x0A]"
    by (simp add: body_client_response written_append written_quiet [OF assms] on_panic_def
        HandleError_def http_Error_def StatusText_def StatusInternalServerError_def)
qed

text \<open>
  C2 (as amended): when the wrapped handler panics with any value, the recovery
  wrapper returns normally and reports exactly two records through the error
  reporter, one labelled \<open>PANIC:\<close> and one labelled \<open>STACKTRACE:\<close>; when the handler
  had written neither a status nor body bytes before it panicked, the client receives
  status 500 with the body ``Internal Server Error'' and a newline, which holds
  nothing of the stack dump.
\<close>

theorem recover_answers_500_before_output:
  assumes "h r = (evs, Panics rr)"
  shows "snd (RecoverHandler stack (Some h) r) = Returns \<and>
         log_records (fst (RecoverHandler stack (Some h) r)) =
           log_records evs @
           [''Panic: '' @ server_error_msg r @ '', ERROR: PANIC: '' @ recovered_err rr,
            ''Panic: '' @ server_error_msg r @ '', ERROR: STACKTRACE: '' @ stack] \<and>
         ((\<forall>e \<in> set evs. \<not> is_sink_write e) \<longrightarrow>
            status (client_response (fst (RecoverHandler stack (Some h) r))) = Some 500 \<and>
            body (client_response (fst (RecoverHandler stack (Some h) r))) =
              ''Internal Server Error'' @ [CHR 0x0A])"
  using assms
  by (simp add: RecoverHandler_def log_records_append on_panic_logs client_response_after_quiet)

theorem recover_answers_500_before_output_witness:
  "h_boom r_plain = ([Elapse 7], Panics (PString ''boom'')) \<and>
   snd (RecoverHandler ''trace'' (Some h_boom) r_plain) = Returns \<and>
   length (log_records (fst (RecoverHandler ''trace'' (Some h_boom) r_plain))) = 2 \<and>
   status (client_response (fst (RecoverHandler ''trace'' (Some h_boom) r_plain))) = Some 500 \<and>
   body (client_response (fst (RecoverHandler ''trace'' (Some h_boom) r_plain))) =
     ''Internal Server Error'' @ [CHR 0x0A]"
  using recover_answers_500_before_output
    [of h_boom r_plain "[Elapse 7]" "PString ''boom''" "''trace''"]
  by (simp add: h_boom_def)

text \<open>
  C2 as stated fails for a handler that writes body bytes and then panics: the status
  200 implied by its first write stands, and the error text is appended to the bytes
  already sent.
\<close>

theorem recover_after_partial_output_counterexample:
  "h_partial r_plain = ([Write ''partial''], Panics (PError ''boom'')) \<and>
   status (client_response (fst (RecoverHandler ''trace'' (Some h_partial) r_plain))) = Some 200 \<and>
   body (client_response (fst (RecoverHandler ''trace'' (Some h_partial) r_plain))) =
     ''partialInternal Server Error'' @ [CHR 0x0A]"
  by (simp add: h_partial_def RecoverHandler_def on_panic_def HandleError_def http_Error_def
      client_response_def finish_def empty_response_def StatusText_def
      StatusInternalServerError_def)

text \<open>
  C5 (as amended): the metrics wrapper ends the way the wrapped handler ends and
  leaves its events untouched; when the wrapped handler returns, the wrapper adds
  exactly one log record after them, holding the request URI, the method and the
  nanoseconds that passed during the wrapped call; when the wrapped handler panics,
  the wrapper adds nothing.
\<close>

theorem metrics_logs_after_normal_return:
  assumes "h r = (evs, e)"
  shows "snd (RequestMetricsHandler h r) = e \<and>
         (e = Returns \<longrightarrow>
            fst (RequestMetricsHandler h r) =
              evs @ [Log (''Request: '' @ RequestURI r @ '' '' @ Method r @ '' '' @
                          dec (elapsed evs))]) \<and>
         (e \<noteq> Returns \<longrightarrow> fst (RequestMetricsHandler h r) = evs)"
  using assms by (cases e) (simp_all add: RequestMetricsHandler_def)

theorem metrics_logs_after_normal_return_witness:
  "h_ok r_gzip = ([SetHeader ''Content-Type'' ''text/html'', Elapse 5, Write ''hello''], Returns) \<and>
   snd (RequestMetricsHandler h_ok r_gzip) = Returns \<and>
   fst (RequestMetricsHandler h_ok r_gzip) =
     [SetHeader ''Content-Type'' ''text/html'', Elapse 5, Write ''hello'',
      Log ''Request: /pay?x=1 POST 5'']"
  using metrics_logs_after_normal_return
    [of h_ok r_gzip "[SetHeader ''Content-Type'' ''text/html'', Elapse 5, Write ''hello'']" Returns]
  by (simp add: h_ok_def r_gzip_def dec.simps)

text \<open>
  C5 as stated fails when the wrapped handler panics: the panic is recovered by the
  enclosing recovery wrapper, the request completes, and no record of the metrics
  wrapper is among the log records.
\<close>

theorem metrics_silent_on_panic_counterexample:
  "snd (h_boom r_gzip) = Panics (PString ''boom'') \<and>
   snd (RecoverHandler ''trace'' (Some (RequestMetricsHandler h_boom)) r_gzip) = Returns \<and>
   request_lines (fst (RecoverHandler ''trace'' (Some (RequestMetricsHandler h_boom)) r_gzip)) = []"
  by (simp add: h_boom_def RequestMetricsHandler_def RecoverHandler_def request_lines_def
      log_records_append on_panic_logs)

text \<open>
  C6 (as amended): a call of \<^verbatim>\<open>HandleError\<close> emits one log record when the reporter is
  panic-labelled or the error is not nil, and none otherwise; without the panic label
  and with an error, the record holds the request method, the user agent (the first
  \<^verbatim>\<open>User-Agent\<close> value, or ``Unknown'' when there is none), the remote address and the
  request URI, followed by the text of the error.
\<close>

theorem HandleError_records:
  "length (HandleError eh r err) = (if PanicHandler eh \<or> err \<noteq> None then 1 else 0) \<and>
   (\<not> PanicHandler eh \<longrightarrow> err = Some e \<longrightarrow>
      HandleError eh r err =
        [Log (''Panic: Server Error - Method: '' @ Method r @
              '', User Agent: '' @
                (case Header r ''User-Agent'' of Some (a # rest) \<Rightarrow> a | _ \<Rightarrow> ''Unknown'') @
              '', Remote Address: '' @ RemoteAddr r @
              '', Endpoint: '' @ RequestURI r @
              '', ERROR: '' @ e)])"
  by (auto simp add: HandleError_def server_error_msg_def user_agent_def
      split: option.splits list.splits)

theorem HandleError_records_witness:
  "length (HandleError \<lparr>PanicHandler = False\<rparr> r_plain (Some ''db down'')) = 1 \<and>
   HandleError \<lparr>PanicHandler = False\<rparr> r_plain (Some ''db down'') =
     [Log ''Panic: Server Error - Method: GET, User Agent: curl/8, Remote Address: 10.0.0.2:6000, Endpoint: /pay, ERROR: db down''] \<and>
   HandleError \<lparr>PanicHandler = False\<rparr> r_gzip (Some ''db down'') =
     [Log ''Panic: Server Error - Method: POST, User Agent: Unknown, Remote Address: 10.0.0.1:5000, Endpoint: /pay?x=1, ERROR: db down'']"
  using HandleError_records [of "\<lparr>PanicHandler = False\<rparr>" r_plain "Some ''db down''" "''db down''"]
    HandleError_records [of "\<lparr>PanicHandler = False\<rparr>" r_gzip "Some ''db down''" "''db down''"]
  by (simp add: r_plain_def r_gzip_def)

text \<open>
  C6 as stated fails for a nil error on a reporter without the panic label: the line
  is built but no record is emitted.
\<close>

theorem HandleError_nil_error_counterexample:
  "HandleError \<lparr>PanicHandler = False\<rparr> r_plain None = []"
  by (simp add: HandleError_def)

lemma has_prefix_iff: "has_prefix s sub \<longleftrightarrow> prefix sub s"
  by (induction s sub rule: has_prefix.induct) auto

lemma strings_Contains_iff: "strings_Contains s sub \<longleftrightarrow> sublist sub s"
  by (induction s) (simp_all add: has_prefix_iff sublist_Cons_right)

text \<open>
  C4 (as amended): for a request whose first \<^verbatim>\<open>Accept-Encoding\<close> value (the empty string
  when there is none) does not contain the string \<open>gzip\<close>, the compression wrapper is
  the wrapped handler itself: the same operations reach the same sink, so every byte
  passes unchanged and the wrapper sets no header.
\<close>

theorem gzip_pass_through:
  assumes "\<not> sublist ''gzip'' (Header_Get (Header r) ''Accept-Encoding'')"
  shows "GZipHandler defl h r = h r"
  using assms by (simp add: GZipHandler_def strings_Contains_iff)

theorem gzip_pass_through_witness:
  "\<not> sublist ''gzip'' (Header_Get (Header r_plain) ''Accept-Encoding'') \<and>
   GZipHandler store h_ok r_plain = h_ok r_plain \<and>
   headers (client_response (fst (GZipHandler store h_ok r_plain))) ''Content-Encoding'' = None \<and>
   body (client_response (fst (GZipHandler store h_ok r_plain))) = ''hello''"
proof -
  have a: "\<not> sublist ''gzip'' (Header_Get (Header r_plain) ''Accept-Encoding'')"
    by (simp add: r_plain_def Header_Get_def)
  show ?thesis
    using a gzip_pass_through [OF a, of store h_ok]
    by (simp add: h_ok_def client_response_def finish_def empty_response_def)
qed

text \<open>
  C4 as stated fails for a request that names gzip with the weight zero
  (\<^verbatim>\<open>gzip;q=0\<close>): it does not declare gzip support, but its value contains the string
  \<open>gzip\<close>, so the wrapper sets \<^verbatim>\<open>Content-Encoding: gzip\<close> and compresses.
\<close>

theorem refused_gzip_is_compressed_counterexample:
  "\<not> declares_gzip r_refuses_gzip \<and>
   fst (GZipHandler store h_ok r_refuses_gzip) =
     [SetHeader ''Content-Encoding'' ''gzip'', SetHeader ''Content-Type'' ''text/html'', Elapse 5,
      Write gzip_header, Write ''hello''] \<and>
   headers (client_response (fst (GZipHandler store h_ok r_refuses_gzip))) ''Content-Encoding'' =
     Some [''gzip'']"
  by (simp add: declares_gzip_def lists_gzip_def zero_weight_def trim_def is_blank_def
      lower_char_def r_refuses_gzip_def GZipHandler_def Header_Get_def h_ok_def gz_Close_def
      store_def client_response_def finish_def empty_response_def gzip_header_def)

lemma written_through_gzip:
  "written (through_gzip wrote evs) = (if \<not> wrote \<and> has_write evs then gzip_header else [])"
  by (induction wrote evs rule: through_gzip.induct) simp_all

lemma written_gzip_stream:
  "written (through_gzip False evs @ gz_Close defl evs) =
     gzip_header @ defl (written evs)"
  by (simp add: written_append written_through_gzip gz_Close_def)

text \<open>
  C3 (as amended): for a request whose first \<^verbatim>\<open>Accept-Encoding\<close> value contains the
  string \<open>gzip\<close>, the first operation of the compression wrapper on the sink sets
  \<^verbatim>\<open>Content-Encoding: gzip\<close>, before any body byte, and the body the client receives
  is the gzip stream of the bytes the wrapped handler writes: for any decoder that
  inverts the compressor, it decodes to the body of a run of the same handler without
  the wrapper. This holds whether the handler returns or panics, as \<^verbatim>\<open>gz.Close()\<close> is
  deferred.
\<close>

theorem gzip_round_trip:
  assumes "sublist ''gzip'' (Header_Get (Header r) ''Accept-Encoding'')"
    and "\<forall>x. gunzip (gzip_header @ defl x) = Some x"
    and "h r = (evs, e)"
  shows "gunzip (body (client_response (fst (GZipHandler defl h r)))) =
           Some (body (client_response evs)) \<and>
         snd (GZipHandler defl h r) = e \<and>
         (\<exists>rest. fst (GZipHandler defl h r) = SetHeader ''Content-Encoding'' ''gzip'' # rest)"
  using assms
  by (simp add: GZipHandler_def body_client_response written_gzip_stream strings_Contains_iff)

theorem gzip_round_trip_witness:
  "sublist ''gzip'' (Header_Get (Header r_gzip) ''Accept-Encoding'') \<and>
   (\<forall>x. unstore (gzip_header @ store x) = Some x) \<and>
   h_ok r_gzip = ([SetHeader ''Content-Type'' ''text/html'', Elapse 5, Write ''hello''], Returns) \<and>
   unstore (body (client_response (fst (GZipHandler store h_ok r_gzip)))) = Some ''hello'' \<and>
   fst (GZipHandler store h_ok r_gzip) =
     [SetHeader ''Content-Encoding'' ''gzip'', SetHeader ''Content-Type'' ''text/html'', Elapse 5,
      Write gzip_header, Write ''hello'']"
proof -
  have a: "sublist ''gzip'' (Header_Get (Header r_gzip) ''Accept-Encoding'')"
    by (simp add: r_gzip_def Header_Get_def strings_Contains_iff [symmetric])
  have a': "strings_Contains (Header_Get (Header r_gzip) ''Accept-Encoding'') ''gzip''"
    using a by (simp only: strings_Contains_iff)
  have b: "\<forall>x. unstore (gzip_header @ store x) = Some x"
    by (simp add: unstore_def gzip_header_def store_def)
  have c: "h_ok r_gzip = ([SetHeader ''Content-Type'' ''text/html'', Elapse 5, Write ''hello''], Returns)"
    by (simp add: h_ok_def)
  have d: "body (client_response [SetHeader ''Content-Type'' ''text/html'', Elapse 5, Write ''hello'']) = ''hello''"
    by (simp add: body_client_response)
  have e: "fst (GZipHandler store h_ok r_gzip) =
     [SetHeader ''Content-Encoding'' ''gzip'', SetHeader ''Content-Type'' ''text/html'', Elapse 5,
      Write gzip_header, Write ''hello'']"
    using a' by (simp add: GZipHandler_def h_ok_def gz_Close_def store_def)
  show ?thesis
    using a b c e gzip_round_trip [of r_gzip unstore store h_ok
        "[SetHeader ''Content-Type'' ''text/html'', Elapse 5, Write ''hello'']" Returns]
    by (simp only: d simp_thms)
qed

text \<open>
  C3 as stated fails for a request that declares gzip in a second \<^verbatim>\<open>Accept-Encoding\<close>
  value: \<^verbatim>\<open>Header.Get\<close> reads the first value only, so the wrapper passes the request
  through, sets no \<^verbatim>\<open>Content-Encoding\<close> and the body is not a gzip stream.
\<close>

theorem second_value_not_compressed_counterexample:
  "declares_gzip r_second_value \<and>
   GZipHandler store h_ok r_second_value = h_ok r_second_value \<and>
   headers (client_response (fst (GZipHandler store h_ok r_second_value))) ''Content-Encoding'' =
     None \<and>
   body (client_response (fst (GZipHandler store h_ok r_second_value))) = ''hello''"
  by (simp add: declares_gzip_def lists_gzip_def zero_weight_def trim_def is_blank_def
      lower_char_def r_second_value_def GZipHandler_def Header_Get_def h_ok_def
      client_response_def finish_def empty_response_def)

lemma foldl_no_sink_op:
  "foldl apply_event w (filter (\<lambda>x. \<not> is_sink_op x) evs) = w"
proof (induction evs arbitrary: w)
  case Nil then show ?case by simp
next
  case (Cons e evs) then show ?case by (cases e) simp_all
qed

text \<open>
  C7: when the wrapped handling takes longer than the ceiling, the reply holds no byte
  the handler wrote: its body is ``timed out'' (with status 503). The ceiling is the
  constant of four seconds in \<^verbatim>\<open>TimeoutHandler\<close>, the same for every request and route.
\<close>

theorem timeout_replaces_body:
  assumes "h r = (evs, e)" and "4 * Second < elapsed evs"
  shows "snd (TimeoutHandler h r) = Returns \<and>
         status (client_response (fst (TimeoutHandler h r))) = Some 503 \<and>
         body (client_response (fst (TimeoutHandler h r))) = ''timed out'' \<and>
         TimeoutHandler h = http_TimeoutHandler h 4000000000 ''timed out''"
proof -
  have t: "TimeoutHandler h = http_TimeoutHandler h 4000000000 ''timed out''"
    by (simp add: TimeoutHandler_def Second_def)
  have f: "fst (TimeoutHandler h r) =
             filter (\<lambda>x. \<not> is_sink_op x) (until (4 * Second) evs) @
             [WriteHeader StatusServiceUnavailable, Write ''timed out'']"
    and s: "snd (TimeoutHandler h r) = Returns"
    using assms by (simp_all add: TimeoutHandler_def http_TimeoutHandler_def)
  have "foldl apply_event empty_response (fst (TimeoutHandler h r)) =
          \<lparr>status = Some 503, headers = Map.empty, body = ''timed out''\<rparr>"
    by (simp add: f foldl_no_sink_op empty_response_def StatusServiceUnavailable_def)
  then show ?thesis using s t by (simp add: client_response_def finish_def)
qed

theorem timeout_replaces_body_witness:
  "h_slow r_plain = ([Elapse (5 * Second), Write ''late''], Returns) \<and>
   4 * Second < elapsed [Elapse (5 * Second), Write ''late''] \<and>
   snd (TimeoutHandler h_slow r_plain) = Returns \<and>
   status (client_response (fst (TimeoutHandler h_slow r_plain))) = Some 503 \<and>
   body (client_response (fst (TimeoutHandler h_slow r_plain))) = ''timed out''"
proof -
  have a: "h_slow r_plain = ([Elapse (5 * Second), Write ''late''], Returns)"
    by (simp add: h_slow_def)
  have b: "4 * Second < elapsed [Elapse (5 * Second), Write ''late'']"
    by (simp add: Second_def)
  show ?thesis using a b timeout_replaces_body [of h_slow r_plain "[Elapse (5 * Second), Write ''late'']" Returns]
    by blast
qed

section \<open>Properties of the router and the composed handler\<close>

lemma map_of_register_all:
  "map_of (routerMap (register_all rt regs)) = map_of (routerMap rt) ++ map_of (rev regs)"
proof (induction regs arbitrary: rt)
  case Nil
  then show ?case by simp
next
  case (Cons reg regs)
  obtain p c where reg: "reg = (p, c)" by (cases reg)
  have "map_of (routerMap (register_all rt (reg # regs))) =
          map_of (routerMap (GET rt p c)) ++ map_of (rev regs)"
    by (simp add: reg Cons.IH)
  also have "\<dots> = map_of (routerMap rt) ++ map_of (rev (reg # regs))"
    by (simp add: reg GET_def update_conv')
  finally show ?case .
qed

lemma distinct_register_all:
  "distinct (map fst (routerMap rt)) \<Longrightarrow> distinct (map fst (routerMap (register_all rt regs)))"
proof (induction regs arbitrary: rt)
  case Nil
  then show ?case by simp
next
  case (Cons reg regs)
  obtain p c where reg: "reg = (p, c)" by (cases reg)
  have "distinct (map fst (routerMap (GET rt p c)))"
    using Cons.prems by (simp add: GET_def distinct_update)
  then show ?case by (simp add: reg Cons.IH)
qed

lemma map_of_rev_last:
  assumes "P \<notin> fst ` set post"
  shows "map_of (rev (pre @ (P, h) # post)) P = Some h"
proof -
  have "map_of (rev post) P = None"
    using assms by (simp add: map_of_eq_None_iff)
  then show ?thesis by (simp add: map_add_def)
qed

lemma Handle_Inr:
  "Handle lib m p h = Inr m' \<Longrightarrow> m' = m @ [(p, h)] \<and> p \<notin> fst ` set m"
  by (simp add: Handle_def split: if_splits)

lemma register_routes_Inr:
  "register_routes lib m rs = Inr m' \<Longrightarrow> m' = m @ rs \<and> fst ` set rs \<inter> fst ` set m = {}"
proof (induction rs arbitrary: m)
  case Nil
  then show ?case by simp
next
  case (Cons reg rs)
  obtain p h where reg: "reg = (p, h)" by (cases reg)
  from Cons.prems obtain m1 where h1: "Handle lib m p h = Inr m1"
    and r1: "register_routes lib m1 rs = Inr m'"
    by (auto simp: reg split: sum.splits)
  from Handle_Inr [OF h1] have m1: "m1 = m @ [(p, h)]" and p: "p \<notin> fst ` set m" by simp_all
  from Cons.IH [OF r1] have "m' = m1 @ rs" and "fst ` set rs \<inter> fst ` set m1 = {}" by simp_all
  then show ?case using m1 p by (auto simp: reg)
qed

lemma register_routes_duplicate:
  "register_routes lib m rs = Inl (MultipleRegistrations p) \<Longrightarrow>
     p \<in> fst ` set rs \<and> (p \<in> fst ` set m \<or> \<not> distinct (map fst rs))"
proof (induction rs arbitrary: m)
  case Nil
  then show ?case by simp
next
  case (Cons reg rs)
  obtain q h where reg: "reg = (q, h)" by (cases reg)
  show ?case
  proof (cases "Handle lib m q h")
    case (Inl e)
    with Cons.prems have "e = MultipleRegistrations p" by (simp add: reg)
    with Inl have "q = p \<and> p \<in> fst ` set m"
      by (auto simp: Handle_def split: if_splits)
    then show ?thesis by (simp add: reg)
  next
    case (Inr m1)
    with Cons.prems have r1: "register_routes lib m1 rs = Inl (MultipleRegistrations p)"
      by (simp add: reg)
    from Handle_Inr [OF Inr] have m1: "m1 = m @ [(q, h)]" by simp
    from Cons.IH [OF r1] have "p \<in> fst ` set rs"
      and "p \<in> fst ` set m1 \<or> \<not> distinct (map fst rs)" by simp_all
    then show ?thesis using m1 by (auto simp: reg)
  qed
qed

lemma routes_Inr:
  assumes "routes lib fs cfg = Inr m"
  shows "m = (''/css/'', fs (StaticFilesDirPath cfg)) # routerMap (Router cfg) \<and>
         ''/css/'' \<notin> fst ` set (routerMap (Router cfg))"
proof -
  from assms obtain m0 where h0: "Handle lib [] ''/css/'' (fs (StaticFilesDirPath cfg)) = Inr m0"
    and r: "register_routes lib m0 (routerMap (Router cfg)) = Inr m"
    by (auto simp: routes_def Router_routes_def split: sum.splits)
  from Handle_Inr [OF h0] have m0: "m0 = [(''/css/'', fs (StaticFilesDirPath cfg))]" by simp
  from register_routes_Inr [OF r] show ?thesis by (auto simp: m0)
qed

lemma routes_duplicate:
  assumes "routes lib fs cfg = Inl (MultipleRegistrations p)"
    and "distinct (map fst (routerMap (Router cfg)))"
  shows "p = ''/css/''"
proof (cases "Handle lib [] ''/css/'' (fs (StaticFilesDirPath cfg))")
  case (Inl e)
  with assms(1) show ?thesis by (auto simp: routes_def Handle_def split: if_splits)
next
  case (Inr m0)
  with assms(1) have r: "register_routes lib m0 (routerMap (Router cfg)) = Inl (MultipleRegistrations p)"
    by (simp add: routes_def Router_routes_def)
  from Handle_Inr [OF Inr] have m0: "m0 = [(''/css/'', fs (StaticFilesDirPath cfg))]" by simp
  from register_routes_duplicate [OF r] assms(2) show ?thesis by (simp add: m0)
qed

lemma routes_lookup:
  assumes "routes lib fs cfg = Inr m" and "map_of (routerMap (Router cfg)) P = Some h"
  shows "map_of m P = Some h"
proof -
  from routes_Inr [OF assms(1)]
  have m: "m = (''/css/'', fs (StaticFilesDirPath cfg)) # routerMap (Router cfg)"
    and c: "''/css/'' \<notin> fst ` set (routerMap (Router cfg))" by simp_all
  have "P \<in> fst ` set (routerMap (Router cfg))"
    using assms(2) by (metis map_of_eq_None_iff option.distinct(1))
  with c have "P \<noteq> ''/css/''" by blast
  then show ?thesis by (simp add: m assms(2))
qed

lemma routes_pay:
  "routes path_mux (FileServer E0) cfg_pay = Inr [(''/css/'', NotFound), (''/pay'', h_ok)]"
  by (simp add: routes_def cfg_pay_def E0_def Router_routes_def GET_def NewRouter_def
      Handle_def path_mux_def)

lemma select_pay:
  "select path_mux [''/css/'', ''/pay''] (r_plain\<lparr>Method := m\<rparr>) = Pattern ''/pay''"
  by (simp add: path_mux_def r_plain_def cleanPath_def path_Clean_def shouldRedirect_def
      match_def Let_def)

text \<open>
  C8 (as amended): for every path \<open>P\<close> and every sequence of registrations, the route
  table holds for \<open>P\<close> the handler registered last for it, and a registration of \<open>P\<close>
  made again is never reported as a duplicate: the only pattern \<^verbatim>\<open>routes\<close> can find
  registered twice is \<^verbatim>\<open>/css/\<close>, which it has given to the file server. Whenever
  \<^verbatim>\<open>routes\<close> builds the multiplexer, a request for which the multiplexer picks the
  pattern \<open>P\<close> is served by the handler registered last for \<open>P\<close>. This holds for
  every behaviour of the library's multiplexer.
\<close>

theorem last_registration_wins:
  assumes "regs = pre @ (P, h) # post"
    and "P \<notin> fst ` set post"
    and "Router cfg = register_all NewRouter regs"
  shows "map_of (routerMap (Router cfg)) P = Some h \<and>
         (\<forall>p. routes lib fs cfg = Inl (MultipleRegistrations p) \<longrightarrow> p = ''/css/'') \<and>
         (\<forall>m r. routes lib fs cfg = Inr m \<longrightarrow> select lib (map fst m) r = Pattern P \<longrightarrow>
                 ServeMux_ServeHTTP lib m r = h r)"
proof -
  have t: "map_of (routerMap (Router cfg)) P = Some h"
    using map_of_rev_last [OF assms(2)]
    by (simp add: assms(1,3) map_of_register_all NewRouter_def)
  have d: "distinct (map fst (routerMap (Router cfg)))"
    by (simp add: assms(3) distinct_register_all NewRouter_def)
  have "ServeMux_ServeHTTP lib m r = h r"
    if "routes lib fs cfg = Inr m" and "select lib (map fst m) r = Pattern P" for m r
    using routes_lookup [OF that(1) t] that(2) by (simp add: ServeMux_ServeHTTP_def)
  then show ?thesis using t routes_duplicate [OF _ d] by blast
qed

theorem last_registration_wins_witness:
  "''/pay'' \<notin> fst ` set ([] :: (string \<times> ControllerFunc) list) \<and>
   Router cfg_pay = register_all NewRouter [(''/pay'', h_boom), (''/pay'', h_ok)] \<and>
   map_of (routerMap (Router cfg_pay)) ''/pay'' = Some h_ok \<and>
   routes path_mux (FileServer E0) cfg_pay = Inr [(''/css/'', NotFound), (''/pay'', h_ok)] \<and>
   select path_mux (map fst [(''/css/'', NotFound), (''/pay'', h_ok)]) r_plain = Pattern ''/pay'' \<and>
   ServeMux_ServeHTTP path_mux [(''/css/'', NotFound), (''/pay'', h_ok)] r_plain = h_ok r_plain"
proof -
  have a: "Router cfg_pay = register_all NewRouter [(''/pay'', h_boom), (''/pay'', h_ok)]"
    by (simp add: cfg_pay_def)
  have s: "select path_mux (map fst [(''/css/'', NotFound), (''/pay'', h_ok)]) r_plain = Pattern ''/pay''"
    using select_pay [of "Method r_plain"] by simp
  from last_registration_wins
    [where regs = "[(''/pay'', h_boom), (''/pay'', h_ok)]" and pre = "[(''/pay'', h_boom)]"
       and P = "''/pay''" and h = h_ok and post = "[]" and cfg = cfg_pay and lib = path_mux
       and fs = "FileServer E0"] a
  have "map_of (routerMap (Router cfg_pay)) ''/pay'' = Some h_ok"
    and "\<forall>m r. routes path_mux (FileServer E0) cfg_pay = Inr m \<longrightarrow>
           select path_mux (map fst m) r = Pattern ''/pay'' \<longrightarrow>
           ServeMux_ServeHTTP path_mux m r = h_ok r"
    by simp_all
  with a s routes_pay show ?thesis by simp
qed

text \<open>
  C8 as stated fails for the path \<^verbatim>\<open>/css/\<close>: \<^verbatim>\<open>routes\<close> has registered the file server
  under it already, so adding the router's handler panics with ``multiple
  registrations'' and no handler is built.
\<close>

theorem css_registration_panics_counterexample:
  "Router cfg_css = register_all NewRouter [(''/css/'', h_ok)] \<and>
   routes path_mux (FileServer E0) cfg_css = Inl (MultipleRegistrations ''/css/'') \<and>
   handler E0 cfg_css = Inl (MultipleRegistrations ''/css/'')"
  by (simp add: handler_def routes_def cfg_css_def Router_routes_def GET_def NewRouter_def
      Handle_def path_mux_def E0_def)

text \<open>
  C10 (as amended): \<^verbatim>\<open>GET\<close> stores the handler under the path string alone, \<^verbatim>\<open>routes\<close>
  hands it to the multiplexer under that string as the pattern, and a request for
  which the multiplexer picks this pattern is served by the handler whatever its
  method is: the repository adds no check of the method. Which requests the
  multiplexer resolves to the pattern is the library's decision.
\<close>

theorem GET_handler_serves_any_method:
  assumes "Router cfg = GET rt P h"
    and "routes lib fs cfg = Inr m"
    and "select lib (map fst m) (r\<lparr>Method := meth\<rparr>) = Pattern P"
  shows "map_of (routerMap (GET rt P h)) P = Some h \<and>
         map_of m P = Some h \<and>
         ServeMux_ServeHTTP lib m (r\<lparr>Method := meth\<rparr>) = h (r\<lparr>Method := meth\<rparr>)"
proof -
  have t: "map_of (routerMap (Router cfg)) P = Some h"
    by (simp add: assms(1) GET_def update_conv')
  from routes_lookup [OF assms(2) t] have "map_of m P = Some h" .
  then show ?thesis using t assms(1,3) by (simp add: ServeMux_ServeHTTP_def)
qed

theorem GET_handler_serves_any_method_witness:
  "Router cfg_pay = GET (GET NewRouter ''/pay'' h_boom) ''/pay'' h_ok \<and>
   routes path_mux (FileServer E0) cfg_pay = Inr [(''/css/'', NotFound), (''/pay'', h_ok)] \<and>
   select path_mux (map fst [(''/css/'', NotFound), (''/pay'', h_ok)])
     (r_plain\<lparr>Method := ''DELETE''\<rparr>) = Pattern ''/pay'' \<and>
   ServeMux_ServeHTTP path_mux [(''/css/'', NotFound), (''/pay'', h_ok)]
     (r_plain\<lparr>Method := ''DELETE''\<rparr>) = h_ok (r_plain\<lparr>Method := ''DELETE''\<rparr>)"
proof -
  have a: "Router cfg_pay = GET (GET NewRouter ''/pay'' h_boom) ''/pay'' h_ok"
    by (simp add: cfg_pay_def)
  have s: "select path_mux (map fst [(''/css/'', NotFound), (''/pay'', h_ok)])
     (r_plain\<lparr>Method := ''DELETE''\<rparr>) = Pattern ''/pay''"
    using select_pay [of "''DELETE''"] by simp
  show ?thesis
    using a routes_pay s
      GET_handler_serves_any_method [where cfg = cfg_pay and rt = "GET NewRouter ''/pay'' h_boom"
        and P = "''/pay''" and h = h_ok and lib = path_mux and fs = "FileServer E0"
        and m = "[(''/css/'', NotFound), (''/pay'', h_ok)]" and r = r_plain
        and meth = "''DELETE''"]
    by blast
qed

text \<open>
  C10 as stated fails for a path that is not clean: with the handler registered under
  \<^verbatim>\<open>/a//b\<close>, the multiplexer answers a \<^verbatim>\<open>GET\<close> request for \<^verbatim>\<open>/a//b\<close> by a redirect to
  \<^verbatim>\<open>/a/b\<close> and the handler does not run.
\<close>

theorem unclean_path_redirected_counterexample:
  "Router cfg_unclean = GET NewRouter ''/a//b'' h_ok \<and>
   URLPath r_unclean = ''/a//b'' \<and>
   routes path_mux (FileServer E0) cfg_unclean = Inr [(''/css/'', NotFound), (''/a//b'', h_ok)] \<and>
   ServeMux_ServeHTTP path_mux [(''/css/'', NotFound), (''/a//b'', h_ok)] r_unclean =
     ([SetHeader ''Location'' ''/a/b'', WriteHeader 301], Returns) \<and>
   h_ok r_unclean =
     ([SetHeader ''Content-Type'' ''text/html'', Elapse 5, Write ''hello''], Returns)"
  by (simp add: cfg_unclean_def r_unclean_def routes_def Router_routes_def GET_def NewRouter_def
      Handle_def path_mux_def E0_def ServeMux_ServeHTTP_def cleanPath_def path_Clean_def
      shouldRedirect_def Redirect_def h_ok_def Let_def)

text \<open>
  C1: the composed handler is the timeout wrapper around the recovery wrapper around
  the metrics wrapper around the compression wrapper around the multiplexer's
  dispatch, in this order.
\<close>

theorem handler_wrapper_order:
  assumes "routes (ServeMux E) (FileServer E) cfg = Inr m"
  shows "handler E cfg =
           Inr (TimeoutHandler (RecoverHandler (debug_Stack E) (Some (RequestMetricsHandler
                  (GZipHandler (deflate E) (ServeMux_ServeHTTP (ServeMux E) m))))))"
  using assms by (simp add: handler_def alice_Then_def)

theorem handler_wrapper_order_witness:
  "routes (ServeMux E0) (FileServer E0) cfg_pay = Inr [(''/css/'', NotFound), (''/pay'', h_ok)] \<and>
   handler E0 cfg_pay =
     Inr (TimeoutHandler (RecoverHandler (debug_Stack E0) (Some (RequestMetricsHandler
            (GZipHandler (deflate E0)
               (ServeMux_ServeHTTP (ServeMux E0) [(''/css/'', NotFound), (''/pay'', h_ok)]))))))"
proof -
  have a: "routes (ServeMux E0) (FileServer E0) cfg_pay = Inr [(''/css/'', NotFound), (''/pay'', h_ok)]"
    using routes_pay by (simp add: E0_def)
  show ?thesis
    using a handler_wrapper_order [where E = E0 and cfg = cfg_pay
        and m = "[(''/css/'', NotFound), (''/pay'', h_ok)]"]
    by blast
qed

end
